theory Spec2Isabelle
  imports Complex_Main "HOL-Library.Sublist" "HOL-Library.AList"
begin

section \<open>Floating-point values\<close>

text \<open>
  The program computes on pandas/numpy float64 columns. A value is modelled as a real
  number or one of the three special values of IEEE arithmetic: \<open>NaN\<close> (pandas' missing
  marker), plus infinity and minus infinity. Rounding, overflow and the sign of zero are
  not modelled: finite results are exact reals. Every zero divisor the program can
  produce is a positive zero (a difference of timestamps or of array positions), so a
  finite zero divisor is treated as \<open>+0.0\<close>.
\<close>

datatype fl = NaN | Fin real | PInf | NInf

fun fadd :: "fl \<Rightarrow> fl \<Rightarrow> fl" where
  "fadd NaN _ = NaN"
| "fadd _ NaN = NaN"
| "fadd (Fin x) (Fin y) = Fin (x + y)"
| "fadd (Fin _) PInf = PInf"
| "fadd (Fin _) NInf = NInf"
| "fadd PInf NInf = NaN"
| "fadd PInf _ = PInf"
| "fadd NInf PInf = NaN"
| "fadd NInf _ = NInf"

fun fsub :: "fl \<Rightarrow> fl \<Rightarrow> fl" where
  "fsub NaN _ = NaN"
| "fsub _ NaN = NaN"
| "fsub (Fin x) (Fin y) = Fin (x - y)"
| "fsub (Fin _) PInf = NInf"
| "fsub (Fin _) NInf = PInf"
| "fsub PInf PInf = NaN"
| "fsub PInf _ = PInf"
| "fsub NInf NInf = NaN"
| "fsub NInf _ = NInf"

text \<open>The sign of a non-NaN value: \<open>-1\<close>, \<open>0\<close> or \<open>1\<close>.\<close>

fun fsign :: "fl \<Rightarrow> int" where
  "fsign NaN = 0"
| "fsign (Fin x) = (if x < 0 then - 1 else if x = 0 then 0 else 1)"
| "fsign PInf = 1"
| "fsign NInf = - 1"

definition inf_of_sign :: "int \<Rightarrow> fl" where
  "inf_of_sign s = (if s = 0 then NaN else if s < 0 then NInf else PInf)"

fun fmul :: "fl \<Rightarrow> fl \<Rightarrow> fl" where
  "fmul NaN _ = NaN"
| "fmul _ NaN = NaN"
| "fmul (Fin x) (Fin y) = Fin (x * y)"
| "fmul a b = inf_of_sign (fsign a * fsign b)"

fun fdiv :: "fl \<Rightarrow> fl \<Rightarrow> fl" where
  "fdiv NaN _ = NaN"
| "fdiv _ NaN = NaN"
| "fdiv (Fin x) (Fin y) = (if y = 0 then inf_of_sign (fsign (Fin x)) else Fin (x / y))"
| "fdiv (Fin _) _ = Fin 0"
| "fdiv a (Fin y) = (if y = 0 then a else inf_of_sign (fsign a * fsign (Fin y)))"
| "fdiv _ _ = NaN"

section \<open>Gap filling: \<open>Series.interpolate().bfill().ffill()\<close>\<close>

text \<open>
  \<open>Series.interpolate()\<close> with its defaults (\<open>method='linear'\<close>,
  \<open>limit_direction='forward'\<close>) ignores the index and treats the values as equally
  spaced: every missing entry after the first valid one is replaced by
  \<open>np.interp\<close> over the array positions, leading missing entries stay missing, and
  missing entries after the last valid one receive the last valid value
  (\<open>np.interp\<close>'s right default). \<open>np_interp j a j' b k\<close> is numpy's formula for the
  position \<open>k\<close> between the valid neighbours \<open>(j, a)\<close> and \<open>(j', b)\<close>, with its two
  fallbacks when the result is NaN.
\<close>

definition np_interp :: "nat \<Rightarrow> fl \<Rightarrow> nat \<Rightarrow> fl \<Rightarrow> nat \<Rightarrow> fl" where
  "np_interp j a j' b k =
     (let slope = fdiv (fsub b a) (Fin (real j' - real j));
          r1 = fadd (fmul slope (Fin (real k - real j))) a
      in if r1 = NaN
         then (let r2 = fadd (fmul slope (Fin (real k - real j'))) b
               in if r2 = NaN \<and> a = b then a else r2)
         else r1)"

fun next_valid :: "nat \<Rightarrow> fl list \<Rightarrow> (nat \<times> fl) option" where
  "next_valid k [] = None"
| "next_valid k (x # xs) = (if x \<noteq> NaN then Some (k, x) else next_valid (Suc k) xs)"

fun interpolate_from :: "(nat \<times> fl) option \<Rightarrow> nat \<Rightarrow> fl list \<Rightarrow> fl list" where
  "interpolate_from prev k [] = []"
| "interpolate_from prev k (x # xs) =
     (if x \<noteq> NaN then x # interpolate_from (Some (k, x)) (Suc k) xs
      else (case prev of
              None \<Rightarrow> NaN
            | Some (j, a) \<Rightarrow>
                (case next_valid (Suc k) xs of
                   None \<Rightarrow> a
                 | Some (j', b) \<Rightarrow> np_interp j a j' b k))
           # interpolate_from prev (Suc k) xs)"

definition interpolate :: "fl list \<Rightarrow> fl list" where
  "interpolate xs = interpolate_from None 0 xs"

text \<open>\<open>Series.bfill()\<close>: a missing entry takes the next valid value, when there is one.\<close>

fun bfill :: "fl list \<Rightarrow> fl list" where
  "bfill [] = []"
| "bfill (x # xs) =
     (let r = bfill xs
      in (if x = NaN then (case r of [] \<Rightarrow> NaN | y # _ \<Rightarrow> y) else x) # r)"

text \<open>\<open>Series.ffill()\<close>: a missing entry takes the last valid value, when there is one.\<close>

fun ffill_from :: "fl \<Rightarrow> fl list \<Rightarrow> fl list" where
  "ffill_from prev [] = []"
| "ffill_from prev (x # xs) =
     (let y = (if x = NaN then prev else x) in y # ffill_from y xs)"

definition ffill :: "fl list \<Rightarrow> fl list" where
  "ffill xs = ffill_from NaN xs"

definition gap_fill :: "fl list \<Rightarrow> fl list" where
  "gap_fill xs = ffill (bfill (interpolate xs))"

section \<open>Strings and column names\<close>

text \<open>Python's \<open>sub in s\<close> on strings.\<close>

fun contains :: "string \<Rightarrow> string \<Rightarrow> bool" where
  "contains sub [] = (sub = [])"
| "contains sub (c # cs) = (prefix sub (c # cs) \<or> contains sub cs)"

text \<open>
  Python's \<open>s.replace(old, new)\<close>: every non-overlapping occurrence of \<open>old\<close>, found
  from left to right, is replaced by \<open>new\<close>. (For an empty \<open>old\<close> Python puts \<open>new\<close>
  before every character and at the end.)
\<close>

function str_replace :: "string \<Rightarrow> string \<Rightarrow> string \<Rightarrow> string" where
  "str_replace old new [] = (if old = [] then new else [])"
| "str_replace old new (c # cs) =
     (if old = [] then new @ c # str_replace old new cs
      else if prefix old (c # cs)
           then new @ str_replace old new (drop (length old) (c # cs))
           else c # str_replace old new cs)"
  by pat_completeness auto
termination
  by (relation "measure (\<lambda>(old, new, s). length s)") auto

definition phase_name :: "string \<Rightarrow> string" where
  "phase_name col = str_replace ''Frequency'' ''Phase'' col"

definition rocof_name :: "string \<Rightarrow> string" where
  "rocof_name col = str_replace ''Frequency'' ''RoCoF'' col"

definition rel_name :: "string \<Rightarrow> string" where
  "rel_name col = col @ ''_rel''"

definition reference_station :: string where
  "reference_station = ''DE_Ostrhauderfehn:Phase''"

section \<open>The table\<close>

text \<open>
  The data frame after \<open>pd.read_csv\<close> and \<open>pd.to_datetime\<close> (lines 31 and 32 of
  \<open>src/main.py\<close>): the \<open>Timestamp\<close> column as nanoseconds since the epoch
  (\<open>datetime64[ns]\<close>, every timestamp present, as unbounded integers), and the other
  columns, in file order, as float columns under their headers. In a data frame every
  column has as many entries as there are rows, and \<open>read_csv\<close> makes the headers
  distinct; a record that breaks this stands for no data frame.
\<close>

record table =
  timestamps :: "int list"
  columns :: "(string \<times> fl list) list"

datatype column = Datetimes "int list" | Floats "fl list"

datatype error =
    KeyError string
  | IndexError
  | TypeError
  | UnboundLocalError
  | FileNotFoundError
  | ParserError

definition column_names :: "table \<Rightarrow> string list" where
  "column_names t = ''Timestamp'' # map fst (columns t)"

definition getitem :: "table \<Rightarrow> string \<Rightarrow> error + column" where
  "getitem t key =
     (if key = ''Timestamp'' then Inr (Datetimes (timestamps t))
      else (case map_of (columns t) key of
              None \<Rightarrow> Inl (KeyError key)
            | Some xs \<Rightarrow> Inr (Floats xs)))"

text \<open>
  A column read for float arithmetic. The program reads columns this way under
  frequency headers, phase names and the reference name only, none of which is
  \<open>Timestamp\<close>; the \<open>TypeError\<close> for the datetime column makes the function total.
\<close>

definition get_floats :: "table \<Rightarrow> string \<Rightarrow> error + fl list" where
  "get_floats t key =
     (case getitem t key of
        Inl e \<Rightarrow> Inl e
      | Inr (Datetimes _) \<Rightarrow> Inl TypeError
      | Inr (Floats xs) \<Rightarrow> Inr xs)"

text \<open>
  \<open>df[key] = values\<close>: an existing column is replaced in place, a new one is appended.
  The program assigns derived columns only, and no derived name is \<open>Timestamp\<close>
  (lemmas \<open>phase_name_not_Timestamp\<close>, \<open>rocof_name_not_Timestamp\<close> and
  \<open>rel_name_not_Timestamp\<close>).
\<close>

definition setitem :: "table \<Rightarrow> string \<Rightarrow> fl list \<Rightarrow> table" where
  "setitem t key xs = t\<lparr>columns := AList.update key xs (columns t)\<rparr>"

section \<open>Phase angle and RoCoF\<close>

text \<open>\<open>Timedelta.total_seconds()\<close> of a number of nanoseconds.\<close>

definition total_seconds :: "int \<Rightarrow> fl" where
  "total_seconds ns = Fin (real_of_int ns / 1000000000)"

text \<open>\<open>np.diff\<close>: \<open>out[i] = a[i + 1] - a[i]\<close>.\<close>

definition np_diff :: "fl list \<Rightarrow> fl list" where
  "np_diff xs = map2 (\<lambda>a b. fsub b a) xs (tl xs)"

fun cumsum_from :: "fl \<Rightarrow> fl list \<Rightarrow> fl list" where
  "cumsum_from acc [] = []"
| "cumsum_from acc (x # xs) = (let s = fadd acc x in s # cumsum_from s xs)"

definition cumsum :: "fl list \<Rightarrow> fl list" where
  "cumsum xs = (case xs of [] \<Rightarrow> [] | x # xs' \<Rightarrow> x # cumsum_from x xs')"

text \<open>
  \<open>compute_phase_angle(df, freq_col, nominal_freq)\<close>, lines 35 to 45 of \<open>src/main.py\<close>
  (lines 14 to 24 of \<open>src/BO_2025/main.py\<close> are the same text). On a table with no
  rows \<open>timestamps.iloc[0]\<close> raises.
\<close>

definition compute_phase_angle :: "table \<Rightarrow> string \<Rightarrow> real \<Rightarrow> error + fl list" where
  "compute_phase_angle t freq_col nominal_freq =
     (case get_floats t freq_col of
        Inl e \<Rightarrow> Inl e
      | Inr raw \<Rightarrow>
          (let freqs = gap_fill raw
           in case timestamps t of
                [] \<Rightarrow> Inl IndexError
              | t0 # _ \<Rightarrow>
                  (let time_sec = map (\<lambda>ts. total_seconds (ts - t0)) (timestamps t);
                       dt = np_diff (hd time_sec # time_sec);
                       delta_f = map (\<lambda>f. fsub f (Fin nominal_freq)) freqs;
                       delta_theta = map2 (\<lambda>d s. fmul (fmul (Fin (2 * pi)) d) s) delta_f dt
                   in Inr (cumsum delta_theta))))"

text \<open>\<open>Series.diff()\<close>: the first entry is missing.\<close>

definition series_diff :: "fl list \<Rightarrow> fl list" where
  "series_diff xs = (case xs of [] \<Rightarrow> [] | _ # _ \<Rightarrow> NaN # np_diff xs)"

text \<open>
  \<open>df['Timestamp'].diff().dt.total_seconds()\<close>: the first entry is \<open>NaT\<close>, whose
  \<open>total_seconds\<close> is NaN.
\<close>

definition timestamp_diff_seconds :: "int list \<Rightarrow> fl list" where
  "timestamp_diff_seconds ts =
     (case ts of [] \<Rightarrow> [] | _ # _ \<Rightarrow> NaN # map2 (\<lambda>a b. total_seconds (b - a)) ts (tl ts))"

text \<open>The RoCoF column of a frequency column, lines 59 and 60 of \<open>src/main.py\<close>.\<close>

definition compute_rocof :: "table \<Rightarrow> string \<Rightarrow> error + fl list" where
  "compute_rocof t col =
     (case get_floats t col of
        Inl e \<Rightarrow> Inl e
      | Inr raw \<Rightarrow>
          (let freq_series = gap_fill raw
           in Inr (map2 fdiv (series_diff freq_series)
                     (timestamp_diff_seconds (timestamps t)))))"

section \<open>The module-level pipeline\<close>

definition frequency_columns :: "table \<Rightarrow> string list" where
  "frequency_columns t = filter (contains ''Frequency'') (column_names t)"

text \<open>The body of the loop of lines 52 to 60, on one frequency column.\<close>

definition derive_station :: "table \<Rightarrow> string \<Rightarrow> error + table" where
  "derive_station t col =
     (case compute_phase_angle t col 50 of
        Inl e \<Rightarrow> Inl e
      | Inr ph \<Rightarrow>
          (let t1 = setitem t (phase_name col) ph
           in case compute_rocof t1 col of
                Inl e \<Rightarrow> Inl e
              | Inr r \<Rightarrow> Inr (setitem t1 (rocof_name col) r)))"

fun derive_loop :: "table \<Rightarrow> string list \<Rightarrow> string list \<Rightarrow> error + table \<times> string list" where
  "derive_loop t phase_angle_cols [] = Inr (t, phase_angle_cols)"
| "derive_loop t phase_angle_cols (col # cols) =
     (case derive_station t col of
        Inl e \<Rightarrow> Inl e
      | Inr t' \<Rightarrow> derive_loop t' (phase_angle_cols @ [phase_name col]) cols)"

text \<open>
  The body of the loop of lines 65 and 66, on one phase column (lines 38 and 39 of
  \<open>src/BO_2025/main.py\<close> are the same text). \<open>df[col]\<close> is read before
  \<open>df[reference_station]\<close>; either raises \<open>KeyError\<close> when the column is absent.
\<close>

definition normalize_station :: "table \<Rightarrow> string \<Rightarrow> error + table" where
  "normalize_station t col =
     (case get_floats t col of
        Inl e \<Rightarrow> Inl e
      | Inr a \<Rightarrow>
          (case get_floats t reference_station of
             Inl e \<Rightarrow> Inl e
           | Inr b \<Rightarrow> Inr (setitem t (rel_name col) (map2 fsub a b))))"

fun normalize_loop :: "table \<Rightarrow> string list \<Rightarrow> error + table" where
  "normalize_loop t [] = Inr t"
| "normalize_loop t (col # cols) =
     (case normalize_station t col of
        Inl e \<Rightarrow> Inl e
      | Inr t' \<Rightarrow> normalize_loop t' cols)"

text \<open>The module's global variables once the module body has run.\<close>

record globals =
  g_df :: table
  g_frequency_columns :: "string list"
  g_phase_angle_cols :: "string list"

text \<open>
  Lines 31 to 66. The outcome of the two pandas calls that read and parse the file is
  the argument: an error when the file is missing or cannot be parsed, the table
  otherwise.
\<close>

definition module_main :: "error + table \<Rightarrow> error + globals" where
  "module_main loaded =
     (case loaded of
        Inl e \<Rightarrow> Inl e
      | Inr t \<Rightarrow>
          (let fcs = frequency_columns t
           in case derive_loop t [] fcs of
                Inl e \<Rightarrow> Inl e
              | Inr (t1, pcs) \<Rightarrow>
                  (case normalize_loop t1 pcs of
                     Inl e \<Rightarrow> Inl e
                   | Inr t2 \<Rightarrow>
                       Inr \<lparr>g_df = t2, g_frequency_columns = fcs,
                            g_phase_angle_cols = pcs\<rparr>)))"

section \<open>The query: \<open>update_graph\<close>\<close>

definition COLOR_PALETTE :: "string list" where
  "COLOR_PALETTE =
     [''#1f77b4'', ''#ff7f0e'', ''#2ca02c'', ''#d62728'', ''#9467bd'',
      ''#8c564b'', ''#e377c2'', ''#7f7f7f'', ''#bcbd22'', ''#17becf'']"

record trace =
  trace_x :: "int list"
  trace_y :: column
  trace_name :: string
  trace_color :: string

record figure =
  fig_data :: "trace list"
  fig_title :: string
  fig_yaxis_title :: string
  fig_shapes :: "(real \<times> string) list"

text \<open>The column that a selected identifier is read from, for each signal kind.\<close>

definition col_name_of :: "string \<Rightarrow> string \<Rightarrow> string" where
  "col_name_of mode freq_col =
     (if mode = ''Frequency'' then freq_col
      else if mode = ''Phase'' then rel_name (phase_name freq_col)
      else rocof_name freq_col)"

definition yaxis_title_of :: "string \<Rightarrow> string" where
  "yaxis_title_of mode =
     (if mode = ''Frequency'' then ''Frequency (Hz)''
      else if mode = ''Phase'' then ''Relative Phase Angle (rad)''
      else ''RoCoF (Hz/s)'')"

text \<open>
  The loop of lines 155 to 176 from position \<open>i\<close> of the enumeration on; a missing
  column raises \<open>KeyError\<close> at \<open>df[col_name]\<close>.
\<close>

fun make_traces :: "table \<Rightarrow> string \<Rightarrow> nat \<Rightarrow> string list \<Rightarrow> error + trace list" where
  "make_traces t mode i [] = Inr []"
| "make_traces t mode i (freq_col # rest) =
     (let color = COLOR_PALETTE ! (i mod length COLOR_PALETTE);
          col_name = col_name_of mode freq_col;
          label = str_replace '':Frequency'' [] freq_col
      in case getitem t col_name of
           Inl e \<Rightarrow> Inl e
         | Inr ys \<Rightarrow>
             (case make_traces t mode (Suc i) rest of
                Inl e \<Rightarrow> Inl e
              | Inr traces \<Rightarrow>
                  Inr (\<lparr>trace_x = timestamps t, trace_y = ys,
                        trace_name = label @ '' ('' @ mode @ '')'',
                        trace_color = color\<rparr> # traces)))"

text \<open>
  \<open>update_graph(selected_stations, mode)\<close>, lines 126 to 199, with the process-wide
  table passed in and returned. \<open>yaxis_title\<close> is assigned inside the loop only, so an
  empty selection raises \<open>UnboundLocalError\<close> when the layout is built.
\<close>

definition update_graph :: "table \<Rightarrow> string list \<Rightarrow> string \<Rightarrow> (error + figure) \<times> table" where
  "update_graph t selected_stations mode =
     (let shapes = (if mode = ''Frequency''
                    then [(49.8, ''red''), (50.2, ''red''), (49.95, ''green''), (50.05, ''green'')]
                    else [])
      in case make_traces t mode 0 selected_stations of
           Inl e \<Rightarrow> (Inl e, t)
         | Inr traces \<Rightarrow>
             (if selected_stations = [] then (Inl UnboundLocalError, t)
              else (Inr \<lparr>fig_data = traces, fig_title = mode @ '' over Time'',
                         fig_yaxis_title = yaxis_title_of mode, fig_shapes = shapes\<rparr>, t)))"

section \<open>Gap filling keeps known values and fills every gap it can\<close>

lemma length_interpolate_from [simp]: "length (interpolate_from prev k xs) = length xs"
  by (induction xs arbitrary: prev k) auto

lemma length_bfill [simp]: "length (bfill xs) = length xs"
  by (induction xs) (auto simp: Let_def)

lemma length_ffill_from [simp]: "length (ffill_from p xs) = length xs"
  by (induction xs arbitrary: p) (auto simp: Let_def)

lemma length_gap_fill [simp]: "length (gap_fill xs) = length xs"
  by (simp add: gap_fill_def ffill_def interpolate_def)

lemma interpolate_from_keeps:
  "i < length xs \<Longrightarrow> xs ! i \<noteq> NaN \<Longrightarrow> interpolate_from prev k xs ! i = xs ! i"
proof (induction xs arbitrary: prev k i)
  case Nil
  then show ?case by simp
next
  case (Cons x xs)
  then show ?case by (cases i) auto
qed

lemma bfill_keeps: "i < length xs \<Longrightarrow> xs ! i \<noteq> NaN \<Longrightarrow> bfill xs ! i = xs ! i"
proof (induction xs arbitrary: i)
  case Nil
  then show ?case by simp
next
  case (Cons x xs)
  then show ?case by (cases i) (auto simp: Let_def)
qed

lemma ffill_from_keeps:
  "i < length xs \<Longrightarrow> xs ! i \<noteq> NaN \<Longrightarrow> ffill_from p xs ! i = xs ! i"
proof (induction xs arbitrary: p i)
  case Nil
  then show ?case by simp
next
  case (Cons x xs)
  then show ?case by (cases i) (auto simp: Let_def)
qed

lemma gap_fill_keeps:
  assumes "i < length xs" and "xs ! i \<noteq> NaN"
  shows "gap_fill xs ! i = xs ! i"
proof -
  have a: "interpolate xs ! i = xs ! i"
    using assms by (simp add: interpolate_def interpolate_from_keeps)
  have b: "bfill (interpolate xs) ! i = xs ! i"
    using assms a by (simp add: bfill_keeps interpolate_def)
  show ?thesis
    using assms b by (simp add: gap_fill_def ffill_def ffill_from_keeps interpolate_def)
qed

lemma interpolate_from_all_nan:
  "\<forall>x\<in>set xs. x = NaN \<Longrightarrow> interpolate_from None k xs = xs"
  by (induction xs arbitrary: k) auto

lemma bfill_all_nan: "\<forall>x\<in>set xs. x = NaN \<Longrightarrow> bfill xs = xs"
  by (induction xs) (auto simp: Let_def split: list.splits)

lemma ffill_from_all_nan: "\<forall>x\<in>set xs. x = NaN \<Longrightarrow> ffill_from NaN xs = xs"
  by (induction xs) (auto simp: Let_def)

lemma gap_fill_all_nan: "\<forall>x\<in>set xs. x = NaN \<Longrightarrow> gap_fill xs = xs"
  by (simp add: gap_fill_def ffill_def interpolate_def interpolate_from_all_nan
      bfill_all_nan ffill_from_all_nan)

lemma interpolate_from_valid_mem:
  "x \<in> set xs \<Longrightarrow> x \<noteq> NaN \<Longrightarrow> x \<in> set (interpolate_from prev k xs)"
  by (induction xs arbitrary: prev k) auto

lemma bfill_hd_valid:
  "\<exists>x\<in>set xs. x \<noteq> NaN \<Longrightarrow> \<exists>y r. bfill xs = y # r \<and> y \<noteq> NaN"
proof (induction xs)
  case Nil
  then show ?case by simp
next
  case (Cons a xs)
  show ?case
  proof (cases "a = NaN")
    case True
    with Cons.prems have "\<exists>x\<in>set xs. x \<noteq> NaN" by auto
    from Cons.IH [OF this] obtain y r where "bfill xs = y # r" "y \<noteq> NaN" by blast
    with True show ?thesis by (simp add: Let_def)
  next
    case False
    then show ?thesis by (simp add: Let_def)
  qed
qed

lemma ffill_from_valid: "p \<noteq> NaN \<Longrightarrow> NaN \<notin> set (ffill_from p xs)"
  by (induction xs arbitrary: p) (auto simp: Let_def)

lemma ffill_bfill_complete:
  assumes "\<exists>x\<in>set xs. x \<noteq> NaN"
  shows "NaN \<notin> set (ffill (bfill xs))"
proof -
  obtain y r where yr: "bfill xs = y # r" "y \<noteq> NaN"
    using bfill_hd_valid [OF assms] by blast
  then show ?thesis
    using ffill_from_valid [of y r] by (auto simp: ffill_def Let_def)
qed

lemma gap_fill_complete:
  assumes "\<exists>x\<in>set xs. x \<noteq> NaN"
  shows "NaN \<notin> set (gap_fill xs)"
proof -
  have "\<exists>x\<in>set (interpolate xs). x \<noteq> NaN"
    using assms interpolate_from_valid_mem by (auto simp: interpolate_def)
  then show ?thesis
    unfolding gap_fill_def by (rule ffill_bfill_complete)
qed


text \<open>
  Claim C3, as the code has it. The gap-filled sequence has the length of the raw one,
  and every entry that was not missing keeps its value. It has no missing entry exactly
  when the raw sequence is empty or has at least one entry that is not missing: a
  sequence whose entries are all missing comes back unchanged, since neither the
  interpolation nor either fill has a value to copy.
\<close>

theorem gap_fill_spec:
  "length (gap_fill xs) = length xs
   \<and> (\<forall>i<length xs. xs ! i \<noteq> NaN \<longrightarrow> gap_fill xs ! i = xs ! i)
   \<and> (NaN \<notin> set (gap_fill xs) \<longleftrightarrow> xs = [] \<or> (\<exists>x\<in>set xs. x \<noteq> NaN))"
proof (intro conjI)
  show "length (gap_fill xs) = length xs" by simp
next
  show "\<forall>i<length xs. xs ! i \<noteq> NaN \<longrightarrow> gap_fill xs ! i = xs ! i"
    by (simp add: gap_fill_keeps)
next
  show "NaN \<notin> set (gap_fill xs) \<longleftrightarrow> xs = [] \<or> (\<exists>x\<in>set xs. x \<noteq> NaN)"
  proof (cases "\<exists>x\<in>set xs. x \<noteq> NaN")
    case True
    then show ?thesis using gap_fill_complete by blast
  next
    case False
    then have "gap_fill xs = xs" by (simp add: gap_fill_all_nan)
    with False show ?thesis by (cases xs) auto
  qed
qed

theorem gap_fill_spec_witness:
  "length (gap_fill [NaN, Fin 50, NaN, Fin 52, NaN]) = 5
   \<and> gap_fill [NaN, Fin 50, NaN, Fin 52, NaN] ! 1 = Fin 50
   \<and> NaN \<notin> set (gap_fill [NaN, Fin 50, NaN, Fin 52, NaN])"
proof -
  let ?xs = "[NaN, Fin 50, NaN, Fin 52, NaN]"
  have h1: "(1::nat) < length ?xs" and h2: "?xs ! 1 \<noteq> NaN" and h3: "\<exists>x\<in>set ?xs. x \<noteq> NaN"
    by simp_all
  have len: "length ?xs = 5" and v: "?xs ! 1 = Fin 50" by simp_all
  from gap_fill_spec [of ?xs] h1 h2 h3 len v show ?thesis by metis
qed

theorem gap_fill_all_missing_counterexample:
  "NaN \<in> set (gap_fill [NaN, NaN, NaN])"
  by (simp add: gap_fill_def interpolate_def ffill_def)

section \<open>The phase-angle integrator\<close>

lemmas eval_defs = compute_phase_angle_def get_floats_def getitem_def gap_fill_def
  interpolate_def ffill_def total_seconds_def cumsum_def Let_def
  compute_rocof_def series_diff_def timestamp_diff_seconds_def

lemma np_diff_simps [simp]:
  "np_diff [] = []" "np_diff [a] = []" "np_diff (a # b # xs) = fsub b a # np_diff (b # xs)"
  by (simp_all add: np_diff_def)

lemma length_np_diff [simp]: "length (np_diff xs) = length xs - 1"
  by (simp add: np_diff_def)



lemma length_cumsum_from [simp]: "length (cumsum_from a xs) = length xs"
  by (induction xs arbitrary: a) (auto simp: Let_def)

lemma length_cumsum [simp]: "length (cumsum xs) = length xs"
  by (simp add: cumsum_def split: list.splits)














section \<open>The RoCoF column\<close>

lemma length_series_diff [simp]: "length (series_diff xs) = length xs"
  by (cases xs) (simp_all add: series_diff_def)


lemma length_timestamp_diff_seconds [simp]: "length (timestamp_diff_seconds ts) = length ts"
  by (cases ts) (simp_all add: timestamp_diff_seconds_def)




section \<open>The worked example\<close>



section \<open>Column names\<close>

lemma contains_iff_sublist: "contains sub s \<longleftrightarrow> sublist sub s"
  by (induction s) (simp_all add: sublist_Cons_right)

lemma sublist_hd_mem: "sublist xs ys \<Longrightarrow> xs \<noteq> [] \<Longrightarrow> hd xs \<in> set ys"
  by (metis hd_in_set set_mono_sublist subsetD)

text \<open>
  An occurrence of \<open>old\<close> in \<open>new @ r\<close> lies in \<open>r\<close> when the first character of \<open>old\<close>
  does not occur in \<open>new\<close>.
\<close>

lemma contains_append_new:
  assumes "contains old (new @ r)" and "old \<noteq> []" and "hd old \<notin> set new"
  shows "contains old r"
proof -
  from assms(1) have "sublist old (new @ r)" by (simp add: contains_iff_sublist)
  then consider "sublist old new" | "sublist old r"
    | xs1 xs2 where "old = xs1 @ xs2" "suffix xs1 new" "prefix xs2 r"
    by (auto simp: sublist_append)
  then show ?thesis
  proof cases
    case 1
    then show ?thesis using assms(2,3) sublist_hd_mem by blast
  next
    case 2
    then show ?thesis by (simp add: contains_iff_sublist)
  next
    case 3
    show ?thesis
    proof (cases "xs1 = []")
      case True
      with 3 have "sublist old r" by auto
      then show ?thesis by (simp add: contains_iff_sublist)
    next
      case False
      then have "hd old = hd xs1" using 3 by simp
      moreover have "hd xs1 \<in> set new"
        using 3 False by (metis hd_in_set set_mono_suffix subsetD)
      ultimately show ?thesis using assms(3) by simp
    qed
  qed
qed

lemma contains_append_suffix:
  assumes "contains old (x @ y)" and "\<not> contains old x" and "\<not> contains old y"
  shows "y \<noteq> [] \<and> hd y \<in> set old"
proof -
  from assms have "sublist old (x @ y)" "\<not> sublist old x" "\<not> sublist old y"
    by (simp_all add: contains_iff_sublist)
  then obtain xs1 xs2 where o: "old = xs1 @ xs2" "suffix xs1 x" "prefix xs2 y"
    by (auto simp: sublist_append)
  have "xs2 \<noteq> []"
  proof
    assume "xs2 = []"
    with o have "suffix old x" by simp
    then have "sublist old x" by auto
    with \<open>\<not> sublist old x\<close> show False by simp
  qed
  with o show ?thesis
    by (metis Un_iff hd_append2 hd_in_set prefix_def set_append append_is_Nil_conv)
qed

text \<open>
  Up to the first character of \<open>new\<close>, the result of a replacement is a copy of the
  input.
\<close>

lemma str_replace_prefix:
  "prefix xs (str_replace old new s) \<Longrightarrow> old \<noteq> [] \<Longrightarrow> new \<noteq> [] \<Longrightarrow>
   hd new \<notin> set xs \<Longrightarrow> prefix xs s"
proof (induction old new s arbitrary: xs rule: str_replace.induct)
  case (1 old new)
  then show ?case by simp
next
  case (2 old new c cs)
  show ?case
  proof (cases xs)
    case Nil
    then show ?thesis by simp
  next
    case (Cons x xs')
    show ?thesis
    proof (cases "prefix old (c # cs)")
      case True
      with "2.prems" have "prefix (x # xs') (new @ str_replace old new (drop (length old) (c # cs)))"
        by (simp add: Cons)
      with \<open>new \<noteq> []\<close> have "x = hd new"
        by (cases new) (auto simp: prefix_Cons)
      with "2.prems"(4) Cons show ?thesis by simp
    next
      case False
      with "2.prems" Cons have x: "x = c" and p: "prefix xs' (str_replace old new cs)"
        by simp_all
      from "2.prems"(4) Cons have "hd new \<notin> set xs'" by simp
      from "2.IH"(3) [OF \<open>old \<noteq> []\<close> False p \<open>old \<noteq> []\<close> \<open>new \<noteq> []\<close> this]
      show ?thesis by (simp add: Cons x)
    qed
  qed
qed

text \<open>
  When \<open>old\<close> and \<open>new\<close> do not share their first characters with each other, no
  occurrence of \<open>old\<close> is left after the replacement. This holds for \<open>Frequency\<close> and
  \<open>Phase\<close>, and not for \<open>Frequency\<close> and \<open>RoCoF\<close>, which ends with an \<open>F\<close>.
\<close>

lemma str_replace_removes:
  "old \<noteq> [] \<Longrightarrow> new \<noteq> [] \<Longrightarrow> hd old \<notin> set new \<Longrightarrow> hd new \<notin> set old \<Longrightarrow>
   \<not> contains old (str_replace old new s)"
proof (induction old new s rule: str_replace.induct)
  case (1 old new)
  then show ?case by simp
next
  case (2 old new c cs)
  show ?case
  proof (cases "prefix old (c # cs)")
    case True
    from "2.IH"(2) [OF \<open>old \<noteq> []\<close> True] "2.prems"
    have "\<not> contains old (str_replace old new (drop (length old) (c # cs)))" by simp
    then have "\<not> contains old (new @ str_replace old new (drop (length old) (c # cs)))"
      using contains_append_new "2.prems" by blast
    with True "2.prems" show ?thesis by simp
  next
    case False
    from "2.IH"(3) [OF \<open>old \<noteq> []\<close> False] "2.prems"
    have ih: "\<not> contains old (str_replace old new cs)" by simp
    have "\<not> prefix old (str_replace old new (c # cs))"
      using str_replace_prefix [of old old new "c # cs"] "2.prems" False by blast
    with False ih "2.prems" show ?thesis by simp
  qed
qed

lemma str_replace_has_new:
  "contains old s \<Longrightarrow> old \<noteq> [] \<Longrightarrow> set new \<subseteq> set (str_replace old new s)"
proof (induction old new s rule: str_replace.induct)
  case (1 old new)
  then show ?case by simp
next
  case (2 old new c cs)
  show ?case
  proof (cases "prefix old (c # cs)")
    case True
    with "2.prems" show ?thesis by simp
  next
    case False
    with "2.prems" have "contains old cs" by simp
    from "2.IH"(3) [OF \<open>old \<noteq> []\<close> False this \<open>old \<noteq> []\<close>] False "2.prems"
    show ?thesis by auto
  qed
qed

lemma phase_name_no_Frequency: "\<not> contains ''Frequency'' (phase_name col)"
  unfolding phase_name_def by (rule str_replace_removes) simp_all

lemma rel_name_no_Frequency:
  "\<not> contains ''Frequency'' col \<Longrightarrow> \<not> contains ''Frequency'' (rel_name col)"
proof
  assume a: "\<not> contains ''Frequency'' col" and b: "contains ''Frequency'' (rel_name col)"
  have "\<not> contains ''Frequency'' ''_rel''" by simp
  from contains_append_suffix [OF b [unfolded rel_name_def] a this]
  show False by simp
qed

lemma phase_name_not_Timestamp:
  "contains ''Frequency'' col \<Longrightarrow> phase_name col \<noteq> ''Timestamp''"
proof
  assume a: "contains ''Frequency'' col" and b: "phase_name col = ''Timestamp''"
  from str_replace_has_new [OF a, of "''Phase''"] have "CHR ''P'' \<in> set (phase_name col)"
    by (auto simp: phase_name_def)
  with b show False by simp
qed

lemma rocof_name_not_Timestamp:
  "contains ''Frequency'' col \<Longrightarrow> rocof_name col \<noteq> ''Timestamp''"
proof
  assume a: "contains ''Frequency'' col" and b: "rocof_name col = ''Timestamp''"
  from str_replace_has_new [OF a, of "''RoCoF''"] have "CHR ''R'' \<in> set (rocof_name col)"
    by (auto simp: rocof_name_def)
  with b show False by simp
qed

lemma rel_name_not_Timestamp: "rel_name col \<noteq> ''Timestamp''"
proof
  assume "rel_name col = ''Timestamp''"
  then have "last (col @ ''_rel'') = last ''Timestamp''" by (simp add: rel_name_def)
  then show False by simp
qed

lemma rel_name_not_reference: "rel_name col \<noteq> reference_station"
proof
  assume "rel_name col = reference_station"
  then have "last (col @ ''_rel'') = last ''DE_Ostrhauderfehn:Phase''"
    by (simp add: rel_name_def reference_station_def)
  then show False by simp
qed

lemma rel_name_inj: "rel_name a = rel_name b \<longleftrightarrow> a = b"
  by (simp add: rel_name_def)

section \<open>Reading and assigning columns\<close>

lemmas pipeline_defs = module_main_def frequency_columns_def column_names_def
  derive_station_def phase_name_def rocof_name_def rel_name_def setitem_def
  normalize_station_def reference_station_def

lemma getitem_missing:
  "key \<notin> set (column_names t) \<Longrightarrow> getitem t key = Inl (KeyError key)"
  by (auto simp: getitem_def column_names_def map_of_eq_None_iff split: option.splits)

lemma getitem_present:
  "key \<in> set (column_names t) \<Longrightarrow> \<exists>c. getitem t key = Inr c"
  by (auto simp: getitem_def column_names_def map_of_eq_None_iff image_iff split: option.splits)

lemma getitem_setitem_other:
  "key' \<noteq> key \<Longrightarrow> getitem (setitem t key' xs) key = getitem t key"
  by (simp add: getitem_def setitem_def update_conv')

lemma get_floats_setitem_other:
  "key' \<noteq> key \<Longrightarrow> get_floats (setitem t key' xs) key = get_floats t key"
  by (simp add: get_floats_def getitem_setitem_other)

lemma get_floats_setitem_same:
  "key \<noteq> ''Timestamp'' \<Longrightarrow> get_floats (setitem t key xs) key = Inr xs"
  by (simp add: get_floats_def getitem_def setitem_def update_conv')

lemma timestamps_setitem [simp]: "timestamps (setitem t key xs) = timestamps t"
  by (simp add: setitem_def)

lemma frequency_columns_contains:
  "c \<in> set (frequency_columns t) \<Longrightarrow> contains ''Frequency'' c"
  by (simp add: frequency_columns_def)

section \<open>Loading\<close>

text \<open>
  Claim C6, as the code has it. When the file is missing or cannot be parsed, the
  module fails with the error of the pandas call. When the loaded table has no column
  whose header contains \<open>Frequency\<close>, the module does not fail: both loops run zero
  times (the reference column is never read), and the module ends with the table as
  loaded, no frequency column and no phase column.
\<close>

theorem load_outcomes:
  "module_main (Inl e) = Inl e
   \<and> (frequency_columns t = [] \<longrightarrow>
        module_main (Inr t)
          = Inr \<lparr>g_df = t, g_frequency_columns = [], g_phase_angle_cols = []\<rparr>)"
  by (simp add: module_main_def)

theorem load_outcomes_witness:
  "module_main (Inl FileNotFoundError) = Inl FileNotFoundError
   \<and> module_main
       (Inr \<lparr>timestamps = [0, 1000000000], columns = [(''A:Voltage'', [Fin 1, Fin 2])]\<rparr>)
     = Inr \<lparr>g_df = \<lparr>timestamps = [0, 1000000000], columns = [(''A:Voltage'', [Fin 1, Fin 2])]\<rparr>,
            g_frequency_columns = [], g_phase_angle_cols = []\<rparr>"
proof -
  have "frequency_columns
      \<lparr>timestamps = [0, 1000000000], columns = [(''A:Voltage'', [Fin 1, Fin 2])]\<rparr> = []"
    by (simp add: frequency_columns_def column_names_def)
  with load_outcomes [of FileNotFoundError
      "\<lparr>timestamps = [0, 1000000000], columns = [(''A:Voltage'', [Fin 1, Fin 2])]\<rparr>"]
  show ?thesis by blast
qed

theorem no_frequency_columns_counterexample:
  "frequency_columns \<lparr>timestamps = [0], columns = [(''A:Voltage'', [Fin 1])]\<rparr> = []
   \<and> \<not> isl (module_main (Inr \<lparr>timestamps = [0], columns = [(''A:Voltage'', [Fin 1])]\<rparr>))"
  by (simp add: module_main_def frequency_columns_def column_names_def)

section \<open>Queries\<close>

lemma make_traces_missing:
  "\<exists>s\<in>set sel. col_name_of mode s \<notin> set (column_names t) \<Longrightarrow>
   \<exists>s\<in>set sel. col_name_of mode s \<notin> set (column_names t)
      \<and> make_traces t mode i sel = Inl (KeyError (col_name_of mode s))"
proof (induction sel arbitrary: i)
  case Nil
  then show ?case by simp
next
  case (Cons s sel)
  show ?case
  proof (cases "col_name_of mode s \<in> set (column_names t)")
    case False
    then show ?thesis by (simp add: getitem_missing Let_def)
  next
    case True
    then obtain c where c: "getitem t (col_name_of mode s) = Inr c"
      using getitem_present by blast
    from True Cons.prems have "\<exists>s\<in>set sel. col_name_of mode s \<notin> set (column_names t)"
      by auto
    from Cons.IH [OF this, of "Suc i"] obtain s' where
      "s' \<in> set sel" "col_name_of mode s' \<notin> set (column_names t)"
      "make_traces t mode (Suc i) sel = Inl (KeyError (col_name_of mode s'))"
      by blast
    with c show ?thesis by (auto simp: Let_def)
  qed
qed

lemma make_traces_present:
  "\<forall>s\<in>set sel. col_name_of mode s \<in> set (column_names t) \<Longrightarrow>
   \<exists>trs. make_traces t mode i sel = Inr trs \<and> length trs = length sel"
proof (induction sel arbitrary: i)
  case Nil
  then show ?case by simp
next
  case (Cons s sel)
  then obtain c where c: "getitem t (col_name_of mode s) = Inr c"
    using getitem_present by (metis list.set_intros(1))
  from Cons obtain trs where "make_traces t mode (Suc i) sel = Inr trs" "length trs = length sel"
    by (metis list.set_intros(2))
  with c show ?case by (simp add: Let_def)
qed

lemma update_graph_single:
  "getitem t c = Inr y \<Longrightarrow>
   \<exists>fig. fst (update_graph t [c] ''Frequency'') = Inr fig \<and> map trace_y (fig_data fig) = [y]"
  by (simp add: update_graph_def col_name_of_def Let_def)

text \<open>
  Claim C7, as the code has it. A query never changes the table. It is not checked
  against the discovered stations: each selected identifier is turned into a column
  name (itself for \<open>Frequency\<close>, its \<open>Phase\<close> name followed by \<open>_rel\<close> for \<open>Phase\<close>, its
  \<open>RoCoF\<close> name otherwise). When one of these columns is not in the table the query
  fails with the \<open>KeyError\<close> of such a column, nothing being skipped; when all of them
  are in the table and the selection is not empty, the query answers with one trace for
  each identifier, whether or not the identifier is a station.
\<close>

theorem update_graph_spec:
  "snd (update_graph t sel mode) = t
   \<and> ((\<exists>s\<in>set sel. col_name_of mode s \<notin> set (column_names t)) \<longrightarrow>
        (\<exists>s\<in>set sel. col_name_of mode s \<notin> set (column_names t)
           \<and> fst (update_graph t sel mode) = Inl (KeyError (col_name_of mode s))))
   \<and> (sel \<noteq> [] \<and> (\<forall>s\<in>set sel. col_name_of mode s \<in> set (column_names t)) \<longrightarrow>
        (\<exists>fig. fst (update_graph t sel mode) = Inr fig \<and> length (fig_data fig) = length sel))"
proof (intro conjI impI)
  show "snd (update_graph t sel mode) = t"
    by (simp add: update_graph_def Let_def split: sum.splits)
next
  assume "\<exists>s\<in>set sel. col_name_of mode s \<notin> set (column_names t)"
  from make_traces_missing [OF this, of 0]
  show "\<exists>s\<in>set sel. col_name_of mode s \<notin> set (column_names t)
           \<and> fst (update_graph t sel mode) = Inl (KeyError (col_name_of mode s))"
    by (auto simp: update_graph_def Let_def)
next
  assume a: "sel \<noteq> [] \<and> (\<forall>s\<in>set sel. col_name_of mode s \<in> set (column_names t))"
  then obtain trs where "make_traces t mode 0 sel = Inr trs" "length trs = length sel"
    using make_traces_present by blast
  with a show "\<exists>fig. fst (update_graph t sel mode) = Inr fig \<and> length (fig_data fig) = length sel"
    by (simp add: update_graph_def Let_def)
qed

theorem update_graph_spec_witness:
  "snd (update_graph \<lparr>timestamps = [0, 1000000000],
          columns = [(''DE_Ostrhauderfehn:Frequency'', [Fin 50, Fin 50.1])]\<rparr>
        [''DE_Ostrhauderfehn:Frequency'', ''XX:Frequency''] ''Frequency'')
     = \<lparr>timestamps = [0, 1000000000],
          columns = [(''DE_Ostrhauderfehn:Frequency'', [Fin 50, Fin 50.1])]\<rparr>
   \<and> fst (update_graph \<lparr>timestamps = [0, 1000000000],
          columns = [(''DE_Ostrhauderfehn:Frequency'', [Fin 50, Fin 50.1])]\<rparr>
        [''DE_Ostrhauderfehn:Frequency'', ''XX:Frequency''] ''Frequency'')
     = Inl (KeyError ''XX:Frequency'')"
proof -
  let ?t = "\<lparr>timestamps = [0, 1000000000],
          columns = [(''DE_Ostrhauderfehn:Frequency'', [Fin 50, Fin 50.1])]\<rparr>"
  let ?sel = "[''DE_Ostrhauderfehn:Frequency'', ''XX:Frequency'']"
  have h: "\<exists>s\<in>set ?sel. col_name_of ''Frequency'' s \<notin> set (column_names ?t)"
    by (simp add: col_name_of_def column_names_def)
  have u: "\<And>s. s \<in> set ?sel \<Longrightarrow> col_name_of ''Frequency'' s \<notin> set (column_names ?t)
      \<Longrightarrow> col_name_of ''Frequency'' s = ''XX:Frequency''"
    by (auto simp: col_name_of_def column_names_def)
  from update_graph_spec [of ?t ?sel "''Frequency''"] h u show ?thesis
    by metis
qed

theorem unknown_identifier_served_counterexample:
  "module_main (Inr \<lparr>timestamps = [0, 1000000000],
          columns = [(''DE_Ostrhauderfehn:Frequency'', [Fin 50, Fin 50.1])]\<rparr>)
     = Inr \<lparr>g_df = \<lparr>timestamps = [0, 1000000000],
               columns = [(''DE_Ostrhauderfehn:Frequency'', [Fin 50, Fin 50.1]),
                 (''DE_Ostrhauderfehn:Phase'', [Fin 0, Fin (2 * pi * 0.1)]),
                 (''DE_Ostrhauderfehn:RoCoF'', [NaN, Fin 0.1]),
                 (''DE_Ostrhauderfehn:Phase_rel'', [Fin 0, Fin 0])]\<rparr>,
             g_frequency_columns = [''DE_Ostrhauderfehn:Frequency''],
             g_phase_angle_cols = [''DE_Ostrhauderfehn:Phase'']\<rparr>
   \<and> fst (update_graph \<lparr>timestamps = [0, 1000000000],
               columns = [(''DE_Ostrhauderfehn:Frequency'', [Fin 50, Fin 50.1]),
                 (''DE_Ostrhauderfehn:Phase'', [Fin 0, Fin (2 * pi * 0.1)]),
                 (''DE_Ostrhauderfehn:RoCoF'', [NaN, Fin 0.1]),
                 (''DE_Ostrhauderfehn:Phase_rel'', [Fin 0, Fin 0])]\<rparr>
            [''DE_Ostrhauderfehn:Phase''] ''Frequency'')
     = Inr \<lparr>fig_data = [\<lparr>trace_x = [0, 1000000000],
                          trace_y = Floats [Fin 0, Fin (2 * pi * 0.1)],
                          trace_name = ''DE_Ostrhauderfehn:Phase (Frequency)'',
                          trace_color = ''#1f77b4''\<rparr>],
             fig_title = ''Frequency over Time'',
             fig_yaxis_title = ''Frequency (Hz)'',
             fig_shapes = [(49.8, ''red''), (50.2, ''red''), (49.95, ''green''), (50.05, ''green'')]\<rparr>"
  by (simp add: pipeline_defs eval_defs update_graph_def col_name_of_def yaxis_title_of_def
      COLOR_PALETTE_def)

section \<open>The normalization loop\<close>

lemma normalize_station_Inr:
  "normalize_station t col = Inr t' \<Longrightarrow>
   \<exists>a b. get_floats t col = Inr a \<and> get_floats t reference_station = Inr b
      \<and> t' = setitem t (rel_name col) (map2 fsub a b)"
  by (auto simp: normalize_station_def split: sum.splits)

text \<open>A column that no iteration assigns is the same after the loop.\<close>

lemma normalize_loop_frame_getitem:
  "normalize_loop t cols = Inr t' \<Longrightarrow>
   timestamps t' = timestamps t
   \<and> (\<forall>key. (\<forall>c\<in>set cols. rel_name c \<noteq> key) \<longrightarrow> getitem t' key = getitem t key)"
proof (induction cols arbitrary: t)
  case Nil
  then show ?case by simp
next
  case (Cons c cols)
  from Cons.prems(1) obtain t1 where t1: "normalize_station t c = Inr t1"
    and rest: "normalize_loop t1 cols = Inr t'"
    by (auto split: sum.splits)
  from normalize_station_Inr [OF t1] obtain a b where
    t1_eq: "t1 = setitem t (rel_name c) (map2 fsub a b)" by blast
  from Cons.IH [OF rest] have ih1: "timestamps t' = timestamps t1"
    and ih2: "\<And>key. (\<forall>c\<in>set cols. rel_name c \<noteq> key) \<Longrightarrow> getitem t' key = getitem t1 key"
    by blast+
  show ?case
  proof (intro conjI allI impI)
    show "timestamps t' = timestamps t" using ih1 by (simp add: t1_eq)
  next
    fix key
    assume a: "\<forall>c\<in>set (c # cols). rel_name c \<noteq> key"
    then have "getitem t' key = getitem t1 key" using ih2 by simp
    also have "\<dots> = getitem t key"
      using a by (simp add: t1_eq getitem_setitem_other)
    finally show "getitem t' key = getitem t key" .
  qed
qed

lemma normalize_loop_frame:
  "normalize_loop t cols = Inr t' \<Longrightarrow> \<forall>c\<in>set cols. rel_name c \<noteq> key \<Longrightarrow>
   get_floats t' key = get_floats t key"
  using normalize_loop_frame_getitem [of t cols t'] by (simp add: get_floats_def)

text \<open>
  The relative column of a phase column is the difference of the two columns as they
  were before the loop, as long as no relative column takes the place of the phase
  column itself.
\<close>

lemma normalize_loop_rel:
  assumes "normalize_loop t cols = Inr t'" and "col \<in> set cols"
    and "get_floats t col = Inr a" and "get_floats t reference_station = Inr b"
    and "\<forall>c\<in>set cols. rel_name c \<noteq> col"
  shows "get_floats t' (rel_name col) = Inr (map2 fsub a b)"
  using assms
proof (induction cols arbitrary: t)
  case Nil
  then show ?case by simp
next
  case (Cons c cols)
  from Cons.prems(1) obtain t1 where t1: "normalize_station t c = Inr t1"
    and rest: "normalize_loop t1 cols = Inr t'"
    by (auto split: sum.splits)
  from normalize_station_Inr [OF t1] obtain a' b' where
    a': "get_floats t c = Inr a'" and b': "get_floats t reference_station = Inr b'"
    and t1_eq: "t1 = setitem t (rel_name c) (map2 fsub a' b')" by blast
  from Cons.prems(5) have ne: "rel_name c \<noteq> col" by simp
  have col1: "get_floats t1 col = Inr a"
    using ne Cons.prems(3) by (simp add: t1_eq get_floats_setitem_other)
  have ref1: "get_floats t1 reference_station = Inr b"
    using Cons.prems(4) rel_name_not_reference [of c]
    by (simp add: t1_eq get_floats_setitem_other)
  show ?case
  proof (cases "col \<in> set cols")
    case True
    from Cons.IH [OF rest True col1 ref1] Cons.prems(5) show ?thesis by simp
  next
    case False
    with Cons.prems(2) have c: "c = col" by simp
    with a' b' Cons.prems(3,4) have ab: "a' = a" "b' = b" by simp_all
    have "\<forall>c'\<in>set cols. rel_name c' \<noteq> rel_name col"
      using False by (auto simp: rel_name_inj)
    from normalize_loop_frame [OF rest this]
    have "get_floats t' (rel_name col) = get_floats t1 (rel_name col)" .
    also have "\<dots> = Inr (map2 fsub a b)"
      using rel_name_not_Timestamp [of col] by (simp add: t1_eq c ab get_floats_setitem_same)
    finally show ?thesis .
  qed
qed

lemma fsub_self_finite:
  "set xs \<subseteq> range Fin \<Longrightarrow> map2 fsub xs xs = replicate (length xs) (Fin 0)"
  by (induction xs) auto

text \<open>
  Claim C5, as the code has it. Let the loop of lines 65 and 66 run to its end over the
  phase columns \<open>cols\<close>, and let the reference station's absolute phase sequence hold
  finite numbers only (no missing and no infinite value). Then the relative phase of the
  reference station is zero at every index; and so is the relative phase of every
  station whose absolute phase sequence equals the reference's, provided that station's
  phase column is not itself the \<open>_rel\<close> name of a phase column (the loop would have
  assigned it before reading it). A missing value is not covered: in float arithmetic
  the difference of two missing values is missing, not zero.
\<close>

theorem reference_relative_phase_zero:
  assumes loop: "normalize_loop t cols = Inr t'"
    and ref: "get_floats t reference_station = Inr xs"
    and fin: "set xs \<subseteq> range Fin"
  shows "(reference_station \<in> set cols \<longrightarrow>
            get_floats t' (rel_name reference_station) = Inr (replicate (length xs) (Fin 0)))
     \<and> (\<forall>col\<in>set cols. get_floats t col = Inr xs \<and> (\<forall>c\<in>set cols. rel_name c \<noteq> col) \<longrightarrow>
            get_floats t' (rel_name col) = Inr (replicate (length xs) (Fin 0)))"
proof (intro conjI impI ballI)
  assume "reference_station \<in> set cols"
  from normalize_loop_rel [OF loop this ref ref] rel_name_not_reference
  show "get_floats t' (rel_name reference_station) = Inr (replicate (length xs) (Fin 0))"
    by (simp add: fsub_self_finite [OF fin])
next
  fix col
  assume "col \<in> set cols"
    and "get_floats t col = Inr xs \<and> (\<forall>c\<in>set cols. rel_name c \<noteq> col)"
  then show "get_floats t' (rel_name col) = Inr (replicate (length xs) (Fin 0))"
    using normalize_loop_rel [OF loop _ _ ref] by (simp add: fsub_self_finite [OF fin])
qed

theorem reference_relative_phase_zero_witness:
  "get_floats \<lparr>timestamps = [0, 1000000000],
       columns = [(''DE_Ostrhauderfehn:Phase'', [Fin 1, Fin 2]), (''B:Phase'', [Fin 1, Fin 2]),
         (''DE_Ostrhauderfehn:Phase_rel'', [Fin 0, Fin 0]), (''B:Phase_rel'', [Fin 0, Fin 0])]\<rparr>
     (rel_name reference_station) = Inr (replicate 2 (Fin 0))
   \<and> get_floats \<lparr>timestamps = [0, 1000000000],
       columns = [(''DE_Ostrhauderfehn:Phase'', [Fin 1, Fin 2]), (''B:Phase'', [Fin 1, Fin 2]),
         (''DE_Ostrhauderfehn:Phase_rel'', [Fin 0, Fin 0]), (''B:Phase_rel'', [Fin 0, Fin 0])]\<rparr>
     (rel_name ''B:Phase'') = Inr (replicate 2 (Fin 0))"
proof -
  let ?t = "\<lparr>timestamps = [0, 1000000000],
       columns = [(''DE_Ostrhauderfehn:Phase'', [Fin 1, Fin 2]), (''B:Phase'', [Fin 1, Fin 2])]\<rparr>"
  let ?t' = "\<lparr>timestamps = [0, 1000000000],
       columns = [(''DE_Ostrhauderfehn:Phase'', [Fin 1, Fin 2]), (''B:Phase'', [Fin 1, Fin 2]),
         (''DE_Ostrhauderfehn:Phase_rel'', [Fin 0, Fin 0]), (''B:Phase_rel'', [Fin 0, Fin 0])]\<rparr>"
  let ?cols = "[reference_station, ''B:Phase'']"
  have loop: "normalize_loop ?t ?cols = Inr ?t'"
    by (simp add: normalize_station_def get_floats_def getitem_def setitem_def
        reference_station_def rel_name_def)
  have ref: "get_floats ?t reference_station = Inr [Fin 1, Fin 2]"
    by (simp add: get_floats_def getitem_def reference_station_def)
  have fin: "set [Fin 1, Fin 2] \<subseteq> range Fin" by simp
  have b: "get_floats ?t ''B:Phase'' = Inr [Fin 1, Fin 2]"
    by (simp add: get_floats_def getitem_def)
  have nc: "\<forall>c\<in>set ?cols. rel_name c \<noteq> ''B:Phase''"
    by (simp add: rel_name_def reference_station_def)
  have m: "reference_station \<in> set ?cols" "''B:Phase'' \<in> set ?cols" by simp_all
  have l: "length [Fin 1, Fin 2] = 2" by simp
  from reference_relative_phase_zero [OF loop ref fin] m b nc l show ?thesis
    by metis
qed

theorem missing_reference_counterexample:
  "module_main (Inr \<lparr>timestamps = [0, 1000000000],
        columns = [(''DE_Ostrhauderfehn:Frequency'', [NaN, NaN])]\<rparr>)
     = Inr \<lparr>g_df = \<lparr>timestamps = [0, 1000000000],
               columns = [(''DE_Ostrhauderfehn:Frequency'', [NaN, NaN]),
                 (''DE_Ostrhauderfehn:Phase'', [NaN, NaN]),
                 (''DE_Ostrhauderfehn:RoCoF'', [NaN, NaN]),
                 (''DE_Ostrhauderfehn:Phase_rel'', [NaN, NaN])]\<rparr>,
             g_frequency_columns = [''DE_Ostrhauderfehn:Frequency''],
             g_phase_angle_cols = [''DE_Ostrhauderfehn:Phase'']\<rparr>"
  by (simp add: pipeline_defs eval_defs)

section \<open>The frequency columns are left as loaded\<close>

lemma derive_station_Inr:
  "derive_station t col = Inr t' \<Longrightarrow>
   \<exists>ph r. t' = setitem (setitem t (phase_name col) ph) (rocof_name col) r"
  by (auto simp: derive_station_def Let_def split: sum.splits)

lemma derive_loop_frame:
  "derive_loop t pac cols = Inr (t', pac') \<Longrightarrow>
   pac' = pac @ map phase_name cols \<and> timestamps t' = timestamps t
   \<and> (\<forall>key. (\<forall>c\<in>set cols. phase_name c \<noteq> key \<and> rocof_name c \<noteq> key)
         \<longrightarrow> getitem t' key = getitem t key)"
proof (induction cols arbitrary: t pac)
  case Nil
  then show ?case by simp
next
  case (Cons c cols)
  from Cons.prems obtain t1 where t1: "derive_station t c = Inr t1"
    and rest: "derive_loop t1 (pac @ [phase_name c]) cols = Inr (t', pac')"
    by (auto split: sum.splits)
  from derive_station_Inr [OF t1] obtain ph r where
    t1_eq: "t1 = setitem (setitem t (phase_name c) ph) (rocof_name c) r" by blast
  from Cons.IH [OF rest] have
    ih1: "pac' = (pac @ [phase_name c]) @ map phase_name cols"
    and ih2: "timestamps t' = timestamps t1"
    and ih3: "\<And>key. (\<forall>c\<in>set cols. phase_name c \<noteq> key \<and> rocof_name c \<noteq> key)
         \<Longrightarrow> getitem t' key = getitem t1 key"
    by blast+
  show ?case
  proof (intro conjI allI impI)
    show "pac' = pac @ map phase_name (c # cols)" using ih1 by simp
    show "timestamps t' = timestamps t" using ih2 by (simp add: t1_eq)
  next
    fix key
    assume a: "\<forall>c\<in>set (c # cols). phase_name c \<noteq> key \<and> rocof_name c \<noteq> key"
    then have "getitem t' key = getitem t1 key" using ih3 by simp
    also have "\<dots> = getitem t key"
      using a by (simp add: t1_eq getitem_setitem_other)
    finally show "getitem t' key = getitem t key" .
  qed
qed

lemma module_main_Inr:
  "module_main (Inr t) = Inr g \<Longrightarrow>
   \<exists>t1. derive_loop t [] (frequency_columns t) = Inr (t1, g_phase_angle_cols g)
      \<and> normalize_loop t1 (g_phase_angle_cols g) = Inr (g_df g)
      \<and> g_frequency_columns g = frequency_columns t"
  by (auto simp: module_main_def Let_def split: sum.splits prod.splits)

text \<open>
  Claim C10, as the code has it. Let the module body run to its end, and let no
  frequency column's \<open>RoCoF\<close> name be the header of a frequency column. Then every
  frequency column of the final table is the column as loaded, missing entries
  included, and a \<open>Frequency\<close> query for it answers with that raw column. (The \<open>Phase\<close>
  and \<open>_rel\<close> names never contain \<open>Frequency\<close>; a \<open>RoCoF\<close> name can, since \<open>RoCoF\<close> ends
  with the letter that \<open>Frequency\<close> starts with, and the assignment of the RoCoF column
  then replaces a frequency column.)
\<close>

theorem frequency_columns_untouched:
  assumes main: "module_main (Inr t) = Inr g"
    and names: "\<forall>c\<in>set (frequency_columns t). rocof_name c \<notin> set (frequency_columns t)"
  shows "\<forall>c\<in>set (frequency_columns t).
           getitem (g_df g) c = getitem t c
           \<and> (\<exists>fig y. getitem t c = Inr y
                 \<and> fst (update_graph (g_df g) [c] ''Frequency'') = Inr fig
                 \<and> map trace_y (fig_data fig) = [y])"
proof
  fix key
  assume key: "key \<in> set (frequency_columns t)"
  then have cf: "contains ''Frequency'' key" by (rule frequency_columns_contains)
  from module_main_Inr [OF main] obtain t1 where
    d: "derive_loop t [] (frequency_columns t) = Inr (t1, g_phase_angle_cols g)"
    and n: "normalize_loop t1 (g_phase_angle_cols g) = Inr (g_df g)" by blast
  from derive_loop_frame [OF d] have
    pcs: "g_phase_angle_cols g = map phase_name (frequency_columns t)"
    and fr1: "\<And>key. (\<forall>c\<in>set (frequency_columns t). phase_name c \<noteq> key \<and> rocof_name c \<noteq> key)
         \<Longrightarrow> getitem t1 key = getitem t key"
    by simp_all
  have p: "phase_name c \<noteq> key" for c
    using cf phase_name_no_Frequency [of c] by auto
  have r: "\<forall>c\<in>set (frequency_columns t). rocof_name c \<noteq> key"
    using names key by auto
  have "\<forall>c\<in>set (g_phase_angle_cols g). rel_name c \<noteq> key"
    using cf phase_name_no_Frequency rel_name_no_Frequency by (auto simp: pcs)
  with normalize_loop_frame_getitem [OF n] have "getitem (g_df g) key = getitem t1 key"
    by blast
  also have "\<dots> = getitem t key" using fr1 p r by blast
  finally have same: "getitem (g_df g) key = getitem t key" .
  from key have "key \<in> set (column_names t)" by (simp add: frequency_columns_def)
  then obtain y where y: "getitem t key = Inr y" using getitem_present by blast
  with same update_graph_single [of "g_df g" key y]
  show "getitem (g_df g) key = getitem t key
           \<and> (\<exists>fig y. getitem t key = Inr y
                 \<and> fst (update_graph (g_df g) [key] ''Frequency'') = Inr fig
                 \<and> map trace_y (fig_data fig) = [y])"
    by auto
qed

theorem frequency_columns_untouched_witness:
  "getitem (g_df \<lparr>g_df = \<lparr>timestamps = [0, 1000000000],
       columns = [(''DE_Ostrhauderfehn:Frequency'', [NaN, Fin 50.1]),
         (''DE_Ostrhauderfehn:Phase'', [Fin 0, Fin (2 * pi * (50.1 - 50) * 1)]),
         (''DE_Ostrhauderfehn:RoCoF'', [NaN, Fin 0]),
         (''DE_Ostrhauderfehn:Phase_rel'', [Fin 0, Fin 0])]\<rparr>,
      g_frequency_columns = [''DE_Ostrhauderfehn:Frequency''],
      g_phase_angle_cols = [''DE_Ostrhauderfehn:Phase'']\<rparr>) ''DE_Ostrhauderfehn:Frequency''
   = Inr (Floats [NaN, Fin 50.1])"
proof -
  let ?t = "\<lparr>timestamps = [0, 1000000000],
       columns = [(''DE_Ostrhauderfehn:Frequency'', [NaN, Fin 50.1])]\<rparr>"
  let ?g = "\<lparr>g_df = \<lparr>timestamps = [0, 1000000000],
       columns = [(''DE_Ostrhauderfehn:Frequency'', [NaN, Fin 50.1]),
         (''DE_Ostrhauderfehn:Phase'', [Fin 0, Fin (2 * pi * (50.1 - 50) * 1)]),
         (''DE_Ostrhauderfehn:RoCoF'', [NaN, Fin 0]),
         (''DE_Ostrhauderfehn:Phase_rel'', [Fin 0, Fin 0])]\<rparr>,
      g_frequency_columns = [''DE_Ostrhauderfehn:Frequency''],
      g_phase_angle_cols = [''DE_Ostrhauderfehn:Phase'']\<rparr>"
  have main: "module_main (Inr ?t) = Inr ?g"
    by (simp add: pipeline_defs eval_defs)
  have fcs: "frequency_columns ?t = [''DE_Ostrhauderfehn:Frequency'']"
    by (simp add: frequency_columns_def column_names_def)
  have names: "\<forall>c\<in>set (frequency_columns ?t). rocof_name c \<notin> set (frequency_columns ?t)"
    by (simp add: fcs rocof_name_def)
  have raw: "getitem ?t ''DE_Ostrhauderfehn:Frequency'' = Inr (Floats [NaN, Fin 50.1])"
    by (simp add: getitem_def)
  have mem: "''DE_Ostrhauderfehn:Frequency'' \<in> set (frequency_columns ?t)"
    by (simp add: fcs)
  from frequency_columns_untouched [OF main names] mem raw show ?thesis
    by metis
qed

theorem rocof_overwrites_frequency_counterexample:
  "module_main (Inr \<lparr>timestamps = [0, 1000000000],
        columns = [(''Frequencyrequency'', [Fin 50, Fin 50.1]),
                   (''RoCoFrequency'', [Fin 50, Fin 50]),
                   (''DE_Ostrhauderfehn:Frequency'', [Fin 50, Fin 50])]\<rparr>)
     = Inr \<lparr>g_df = \<lparr>timestamps = [0, 1000000000],
               columns = [(''Frequencyrequency'', [Fin 50, Fin 50.1]),
                 (''RoCoFrequency'', [NaN, Fin 0.1]),
                 (''DE_Ostrhauderfehn:Frequency'', [Fin 50, Fin 50]),
                 (''Phaserequency'', [Fin 0, Fin (2 * pi * 0.1)]),
                 (''RoCoPhase'', [Fin 0, Fin (2 * pi * (0.1 - 50))]),
                 (''RoCoRoCoF'', [NaN, Fin 0]),
                 (''DE_Ostrhauderfehn:Phase'', [Fin 0, Fin 0]),
                 (''DE_Ostrhauderfehn:RoCoF'', [NaN, Fin 0]),
                 (''Phaserequency_rel'', [Fin 0, Fin (2 * pi * 0.1)]),
                 (''RoCoPhase_rel'', [Fin 0, Fin (2 * pi * (0.1 - 50))]),
                 (''DE_Ostrhauderfehn:Phase_rel'', [Fin 0, Fin 0])]\<rparr>,
             g_frequency_columns =
               [''Frequencyrequency'', ''RoCoFrequency'', ''DE_Ostrhauderfehn:Frequency''],
             g_phase_angle_cols = [''Phaserequency'', ''RoCoPhase'', ''DE_Ostrhauderfehn:Phase'']\<rparr>"
  by (simp add: pipeline_defs eval_defs)

end
